theory Spec2Isabelle
  imports Complex_Main "HOL-Library.Log_Nat"
begin

section \<open>Values\<close>

text \<open>
  The values \<open>cortex.ts\<close> handles are what \<open>ky\<close>'s \<open>json()\<close> and \<open>JSON.parse\<close> return,
  typed \<open>any\<close>. An object is the map of its own properties. A JavaScript array is an
  object too: besides its elements it can be given named properties, which is what
  \<open>transformModel\<close> does when it is handed one, so \<open>JArr\<close> carries both (a parsed array
  has no named property). The normalizer and the client operations pass numbers on and
  compute with none: \<open>JNum\<close> holds the number's value.
\<close>

datatype json =
  JNull
| JBool bool
| JNum rat
| JStr string
| JArr "json list" "string \<Rightarrow> json option"
| JObj "string \<Rightarrow> json option"

type_synonym obj = "string \<Rightarrow> json option"

text \<open>\<open>typeof v\<close>; \<open>null\<close> and arrays are \<open>'object'\<close>.\<close>

definition typeof_js :: "json \<Rightarrow> string" where
  "typeof_js v =
     (case v of
        JNull \<Rightarrow> ''object''
      | JBool b \<Rightarrow> ''boolean''
      | JNum n \<Rightarrow> ''number''
      | JStr s \<Rightarrow> ''string''
      | JArr xs ps \<Rightarrow> ''object''
      | JObj m \<Rightarrow> ''object'')"

text \<open>The decimal name of an index, the key under which an element is a property.\<close>

fun string_of_nat :: "nat \<Rightarrow> string" where
  "string_of_nat n =
     (if n < 10 then [''0123456789'' ! n]
      else string_of_nat (n div 10) @ [''0123456789'' ! (n mod 10)])"

declare string_of_nat.simps [simp del]

definition index_props :: "json list \<Rightarrow> obj" where
  "index_props xs = map_of (zip (map string_of_nat [0..<length xs]) xs)"

text \<open>
  The own enumerable properties of a value, the ones an object spread copies: the
  characters of a string and the elements of an array under their indices, the named
  properties of an array, the properties of an object; none for the other primitives.
\<close>

definition own_enumerable :: "json \<Rightarrow> obj" where
  "own_enumerable v =
     (case v of
        JStr s \<Rightarrow> index_props (map (\<lambda>c. JStr [c]) s)
      | JArr xs ps \<Rightarrow> index_props xs ++ ps
      | JObj m \<Rightarrow> m
      | _ \<Rightarrow> Map.empty)"

text \<open>\<open>...x\<close> inside an object literal; \<open>None\<close> is \<open>undefined\<close>.\<close>

definition spread :: "json option \<Rightarrow> obj" where
  "spread x = (case x of None \<Rightarrow> Map.empty | Some v \<Rightarrow> own_enumerable v)"

text \<open>
  What a promise of the client can reject with: a \<open>TypeError\<close> or \<open>SyntaxError\<close> raised by
  the runtime, the error \<open>ky\<close> rejected with, or a parsed response body. A \<open>ky\<close> error is
  an \<open>HTTPError\<close>, which has a \<open>response\<close> (status and body; the body parses as JSON or it
  does not), or an error with no \<open>response\<close> (network failure, timeout).
\<close>

datatype body = Unparsable | Parsed json

datatype ky_error = HTTPError nat body | OtherError string

datatype thrown = TypeError | SyntaxError | Raw ky_error | ErrorBody json

text \<open>
  \<open>v.k\<close> and, in strict mode code (a class body is), \<open>v.k = x\<close>, for the names the program
  uses: \<open>parameters\<close>, \<open>settings\<close>, \<open>metadata\<close>, \<open>size\<close>, \<open>data\<close>; none of them is an index,
  \<open>length\<close> or a member of a built-in prototype. Reading from \<open>null\<close> throws; writing to
  \<open>null\<close> or to a primitive throws.
\<close>

definition js_get :: "json \<Rightarrow> string \<Rightarrow> thrown + json option" where
  "js_get v k =
     (case v of
        JNull \<Rightarrow> Inl TypeError
      | _ \<Rightarrow> Inr (own_enumerable v k))"

definition js_set :: "json \<Rightarrow> string \<Rightarrow> json \<Rightarrow> thrown + json" where
  "js_set v k x =
     (case v of
        JArr xs ps \<Rightarrow> Inr (JArr xs (ps(k \<mapsto> x)))
      | JObj m \<Rightarrow> Inr (JObj (m(k \<mapsto> x)))
      | _ \<Rightarrow> Inl TypeError)"

text \<open>\<open>a ?? b\<close> and \<open>x?.k\<close>: \<open>undefined\<close> and \<open>null\<close> are the nullish values.\<close>

definition nullish :: "json option \<Rightarrow> bool" where
  "nullish x = (case x of None \<Rightarrow> True | Some JNull \<Rightarrow> True | Some v \<Rightarrow> False)"

definition coalesce :: "json option \<Rightarrow> json option \<Rightarrow> json option" where
  "coalesce a b = (if nullish a then b else a)"

definition coalesce_value :: "json option \<Rightarrow> json \<Rightarrow> json" where
  "coalesce_value a d = (case a of None \<Rightarrow> d | Some JNull \<Rightarrow> d | Some v \<Rightarrow> v)"

definition optional_get :: "json option \<Rightarrow> string \<Rightarrow> json option" where
  "optional_get x k =
     (case x of
        None \<Rightarrow> None
      | Some JNull \<Rightarrow> None
      | Some v \<Rightarrow> (case js_get v k of Inl e \<Rightarrow> None | Inr r \<Rightarrow> r))"

definition bind_thrown :: "thrown + 'a \<Rightarrow> ('a \<Rightarrow> thrown + 'b) \<Rightarrow> thrown + 'b" where
  "bind_thrown r f = (case r of Inl e \<Rightarrow> Inl e | Inr v \<Rightarrow> f v)"

section \<open>The model normalizer\<close>

text \<open>
  \<open>CortexAPI.transformModel\<close> (lines 223-237). \<open>extractInferenceParams\<close> and
  \<open>extractModelLoadParams\<close> are imported from \<open>@janhq/core\<close> and are parameters here:
  functions from the model to an object. The three assignments run in order, each on the
  model the previous one left, and the function returns the model it was given.
\<close>

definition default_metadata :: "json option \<Rightarrow> json option \<Rightarrow> json" where
  "default_metadata sz metadata =
     JObj [''tags'' \<mapsto> JArr [] Map.empty,
           ''size'' \<mapsto> coalesce_value (coalesce sz (optional_get metadata ''size'')) (JNum 0)]"

definition transformModel ::
  "(json \<Rightarrow> obj) \<Rightarrow> (json \<Rightarrow> obj) \<Rightarrow> json \<Rightarrow> thrown + json" where
  "transformModel extractInferenceParams extractModelLoadParams model =
     bind_thrown (js_get model ''parameters'') (\<lambda>parameters.
     bind_thrown (js_set model ''parameters''
         (JObj (extractInferenceParams model ++ spread parameters))) (\<lambda>model1.
     bind_thrown (js_get model1 ''settings'') (\<lambda>settings.
     bind_thrown (js_set model1 ''settings''
         (JObj (extractModelLoadParams model1 ++ spread settings))) (\<lambda>model2.
     bind_thrown (js_get model2 ''metadata'') (\<lambda>metadata.
     bind_thrown (js_get model2 ''size'') (\<lambda>sz.
     js_set model2 ''metadata''
       (coalesce_value metadata (default_metadata sz metadata))))))))"

text \<open>
  The same call seen from the caller, who holds the model by reference: \<open>h\<close> maps an
  address to the object stored there. The assignments write to the caller's object, and
  the reference returned is the one passed in.
\<close>

type_synonym heap = "nat \<Rightarrow> json"

definition transformModel_call ::
  "(json \<Rightarrow> obj) \<Rightarrow> (json \<Rightarrow> obj) \<Rightarrow> heap \<Rightarrow> nat \<Rightarrow> thrown + (heap \<times> nat)" where
  "transformModel_call extractInferenceParams extractModelLoadParams h a =
     (case transformModel extractInferenceParams extractModelLoadParams (h a) of
        Inl e \<Rightarrow> Inl e
      | Inr model \<Rightarrow> Inr (h(a := model), a))"

text \<open>
  An extractor's result does not depend on the three fields the normalizer writes.
\<close>

definition fields_blind :: "(json \<Rightarrow> obj) \<Rightarrow> bool" where
  "fields_blind f =
     (\<forall>model k x model'.
        k \<in> {''parameters'', ''settings'', ''metadata''} \<and> js_set model k x = Inr model'
        \<longrightarrow> f model' = f model)"

section \<open>Client operations\<close>

text \<open>
  Each operation is given the outcome of its \<open>ky\<close> request, \<open>Inr\<close> the parsed body and
  \<open>Inl\<close> the error; the queue hands the outcome of the task it ran to the caller.
  \<open>Array.prototype.map\<close> calls the function on the elements in order and stops at the
  first throw; \<open>d.map\<close> is not a function unless \<open>d\<close> is an array.
\<close>

fun map_thrown :: "('a \<Rightarrow> thrown + 'b) \<Rightarrow> 'a list \<Rightarrow> thrown + 'b list" where
  "map_thrown f [] = Inr []"
| "map_thrown f (x # xs) =
     (case f x of
        Inl e \<Rightarrow> Inl e
      | Inr y \<Rightarrow> (case map_thrown f xs of Inl e \<Rightarrow> Inl e | Inr ys \<Rightarrow> Inr (y # ys)))"

definition array_map :: "(json \<Rightarrow> thrown + 'b) \<Rightarrow> json option \<Rightarrow> thrown + 'b list" where
  "array_map f d = (case d of Some (JArr xs ps) \<Rightarrow> map_thrown f xs | _ \<Rightarrow> Inl TypeError)"

text \<open>\<open>CortexAPI.getModels\<close> (lines 63-69).\<close>

definition getModels ::
  "(json \<Rightarrow> obj) \<Rightarrow> (json \<Rightarrow> obj) \<Rightarrow> ky_error + json \<Rightarrow> thrown + json list" where
  "getModels extractInferenceParams extractModelLoadParams response =
     (case response of
        Inl err \<Rightarrow> Inl (Raw err)
      | Inr e \<Rightarrow>
          if typeof_js e = ''object''
          then bind_thrown (js_get e ''data'')
                 (array_map (transformModel extractInferenceParams extractModelLoadParams))
          else Inr [])"

text \<open>
  \<open>CortexAPI.pullModel\<close> (lines 76-86). \<open>e.response?.json()\<close> is \<open>undefined\<close> for an error
  with no response, the parsed body of an \<open>HTTPError\<close>, or a rejection with the parser's
  \<open>SyntaxError\<close>, which the \<open>await\<close> rethrows out of the handler. The final \<open>then()\<close> has no
  callback and passes the body on; the declared result type is \<open>void\<close>.
\<close>

definition response_json :: "ky_error \<Rightarrow> thrown + json option" where
  "response_json e =
     (case e of
        OtherError msg \<Rightarrow> Inr None
      | HTTPError status Unparsable \<Rightarrow> Inl SyntaxError
      | HTTPError status (Parsed v) \<Rightarrow> Inr (Some v))"

definition pullModel_catch :: "ky_error \<Rightarrow> thrown" where
  "pullModel_catch e =
     (case response_json e of
        Inl t \<Rightarrow> t
      | Inr b \<Rightarrow> (case b of None \<Rightarrow> Raw e | Some JNull \<Rightarrow> Raw e | Some v \<Rightarrow> ErrorBody v))"

definition pullModel :: "ky_error + json \<Rightarrow> thrown + json" where
  "pullModel response =
     (case response of
        Inl e \<Rightarrow> Inl (pullModel_catch e)
      | Inr v \<Rightarrow> Inr v)"

section \<open>JavaScript numbers\<close>

text \<open>
  A JavaScript number is an IEEE 754 binary64 value: \<open>NaN\<close>, the two infinities, the
  two zeros (\<open>Num 0\<close> is \<open>+0\<close>), or \<open>Num q\<close> with \<open>q\<close> a non-zero value of the format.
  \<open>+\<close>, \<open>/\<close> and \<open>>\<close> are the operations of the standard, with results rounded to the
  nearest value of the format, ties to the even significand.
\<close>

datatype double = NaN | PosInf | NegInf | NegZero | Num rat

text \<open>The value of a finite number, and the sign bit.\<close>

definition fin :: "double \<Rightarrow> rat option" where
  "fin a = (case a of NegZero \<Rightarrow> Some 0 | Num q \<Rightarrow> Some q | _ \<Rightarrow> None)"

definition is_neg :: "double \<Rightarrow> bool" where
  "is_neg a = (case a of NegInf \<Rightarrow> True | NegZero \<Rightarrow> True | Num q \<Rightarrow> q < 0 | _ \<Rightarrow> False)"

definition dzero :: "bool \<Rightarrow> double" where
  "dzero neg = (if neg then NegZero else Num 0)"

definition dinf :: "bool \<Rightarrow> double" where
  "dinf neg = (if neg then NegInf else PosInf)"

text \<open>
  Rounding a rational to the format. \<open>floor_log2 q\<close> is the \<open>e\<close> with \<open>2^e \<le> q < 2^(e+1)\<close>
  for \<open>q > 0\<close>. A normal number has 53 significant bits, so the values near \<open>q\<close> are the
  multiples of \<open>2^(e-52)\<close>; below \<open>2^(-1022)\<close> the spacing stays \<open>2^(-1074)\<close> (subnormal
  numbers, then zero), and a result of \<open>2^1024\<close> or more is an infinity.
\<close>

definition pow2 :: "int \<Rightarrow> rat" where
  "pow2 k = (if 0 \<le> k then 2 ^ nat k else 1 / 2 ^ nat (- k))"

definition floor_log2 :: "rat \<Rightarrow> int" where
  "floor_log2 q =
     (if 1 \<le> q then bitlen \<lfloor>q\<rfloor> - 1
      else - bitlen (\<lceil>1 / q\<rceil> - 1))"

definition round_half_even :: "rat \<Rightarrow> int" where
  "round_half_even x =
     (let f = \<lfloor>x\<rfloor>; d = x - of_int f
      in if d < 1 / 2 then f else if 1 / 2 < d then f + 1 else if even f then f else f + 1)"

definition round_double :: "rat \<Rightarrow> double" where
  "round_double q =
     (if q = 0 then Num 0
      else
        let e = max (floor_log2 \<bar>q\<bar>) (- 1022);
            u = pow2 (e - 52);
            m = of_int (round_half_even (\<bar>q\<bar> / u)) * u
        in if pow2 1024 \<le> m then dinf (q < 0)
           else if m = 0 then dzero (q < 0)
           else Num (if q < 0 then - m else m))"

text \<open>
  \<open>a + b\<close>. An exact sum of zero is \<open>-0\<close> only when both operands are negative (both are
  \<open>-0\<close>); infinities of opposite sign give \<open>NaN\<close>.
\<close>

definition dadd :: "double \<Rightarrow> double \<Rightarrow> double" where
  "dadd a b =
     (if a = NaN \<or> b = NaN then NaN
      else case (fin a, fin b) of
             (Some x, Some y) \<Rightarrow>
               if x + y = 0 then dzero (is_neg a \<and> is_neg b) else round_double (x + y)
           | (Some x, None) \<Rightarrow> b
           | (None, Some y) \<Rightarrow> a
           | (None, None) \<Rightarrow> if a = b then a else NaN)"

text \<open>
  \<open>a / b\<close>. \<open>0 / 0\<close> and \<open>Infinity / Infinity\<close> are \<open>NaN\<close>; any other division by zero is an
  infinity; the sign is the exclusive or of the operands' signs. Nothing throws.
\<close>

definition ddiv :: "double \<Rightarrow> double \<Rightarrow> double" where
  "ddiv a b =
     (if a = NaN \<or> b = NaN then NaN
      else case (fin a, fin b) of
             (Some x, Some y) \<Rightarrow>
               if y = 0 then (if x = 0 then NaN else dinf (is_neg a \<noteq> is_neg b))
               else if x = 0 then dzero (is_neg a \<noteq> is_neg b)
               else round_double (x / y)
           | (Some x, None) \<Rightarrow> dzero (is_neg a \<noteq> is_neg b)
           | (None, Some y) \<Rightarrow> dinf (is_neg a \<noteq> is_neg b)
           | (None, None) \<Rightarrow> NaN)"

text \<open>\<open>a > b\<close>; false when either is \<open>NaN\<close>; the two zeros are equal.\<close>

definition dgt :: "double \<Rightarrow> double \<Rightarrow> bool" where
  "dgt a b =
     (if a = NaN \<or> b = NaN then False
      else case (fin a, fin b) of
             (Some x, Some y) \<Rightarrow> y < x
           | (Some x, None) \<Rightarrow> b = NegInf
           | (None, Some y) \<Rightarrow> a = PosInf
           | (None, None) \<Rightarrow> a = PosInf \<and> b = NegInf)"

section \<open>The event bridge of \<open>cortex.ts\<close>: push frames to typed events\<close>

text \<open>
  \<open>CortexAPI.subscribeToEvents\<close> registers one \<open>message\<close> listener on the socket.
  The listener parses the frame and reads it at the shape
  \<open>{type, task: {id, items: [{downloadedBytes, bytes}]}}\<close>; the source validates nothing,
  so the model takes a frame of that shape as its input. A counter is the number the
  addition sees: a counter the frame lacks is \<open>undefined\<close>, which \<open>+\<close> turns into \<open>NaN\<close>.
  A counter that is a string, which \<open>+\<close> would concatenate, is not a frame of this shape.
\<close>

record item =
  downloadedBytes :: double
  bytes :: double

record task =
  id :: string
  items :: "item list"

record frame =
  type :: string
  task :: task

text \<open>
  The string enum \<open>DownloadTypes\<close> (lines 27-33). TypeScript compiles a string enum to an
  object from member names to values, with no reverse mapping.
\<close>

definition DownloadTypes :: "(string \<times> string) list" where
  "DownloadTypes =
     [(''DownloadUpdated'', ''onFileDownloadUpdate''),
      (''DownloadError'', ''onFileDownloadError''),
      (''DownloadSuccess'', ''onFileDownloadSuccess''),
      (''DownloadStopped'', ''onFileDownloadStopped''),
      (''DownloadStarted'', ''onFileDownloadStarted'')]"

text \<open>
  \<open>DownloadTypes[k]\<close>: the value of the member named \<open>k\<close>; \<open>None\<close> when the enum has no
  member of that name (the lookup is then \<open>undefined\<close>, or a member that every object
  inherits, never one of the five event names).
\<close>

definition DownloadTypes_at :: "string \<Rightarrow> string option" where
  "DownloadTypes_at k = map_of DownloadTypes k"

text \<open>\<open>DownloadTypes.DownloadSuccess\<close>, the member's value.\<close>

definition DownloadTypes_DownloadSuccess :: string where
  "DownloadTypes_DownloadSuccess = ''onFileDownloadSuccess''"

record size_rec =
  transferred :: double
  total :: double

record payload =
  modelId :: string
  percent :: double
  size :: size_rec

text \<open>
  What the listener does to the outside, in program order: \<open>events.emit(name, payload)\<close>
  with the looked-up name, and \<open>setTimeout(() => events.emit(ModelEvent.OnModelsUpdate, {}), ms)\<close>.
  \<open>ModelEvent.OnModelsUpdate\<close> is declared in \<open>@janhq/core\<close>; the timer whose callback
  emits it, with its delay in milliseconds, is the second constructor.
\<close>

datatype action =
  Emit "string option" payload
| SetTimeout_OnModelsUpdate nat

text \<open>The two \<open>reduce\<close> calls and the guarded quotient (lines 186-194).\<close>

definition transferred_of :: "item list \<Rightarrow> double" where
  "transferred_of xs = foldl (\<lambda>acc cur. dadd acc (downloadedBytes cur)) (Num 0) xs"

definition total_of :: "item list \<Rightarrow> double" where
  "total_of xs = foldl (\<lambda>acc cur. dadd acc (bytes cur)) (Num 0) xs"

definition percent_of :: "double \<Rightarrow> double \<Rightarrow> double" where
  "percent_of t tot = (if dgt tot (Num 0) then ddiv t tot else Num 0)"

definition payload_of :: "frame \<Rightarrow> payload" where
  "payload_of data =
     (let transferred = transferred_of (items (task data));
          total = total_of (items (task data));
          percent = percent_of transferred total
      in \<lparr>modelId = id (task data), percent = percent,
          size = \<lparr>transferred = transferred, total = total\<rparr>\<rparr>)"

text \<open>The listener (lines 184-212).\<close>

definition on_message :: "frame \<Rightarrow> action list" where
  "on_message data =
     Emit (DownloadTypes_at (type data)) (payload_of data) #
     (if type data = DownloadTypes_DownloadSuccess then [SetTimeout_OnModelsUpdate 500] else [])"

text \<open>The \<open>events.emit\<close> calls among the actions, in order.\<close>

fun emitted :: "action list \<Rightarrow> (string option \<times> payload) list" where
  "emitted [] = []"
| "emitted (Emit n p # as) = (n, p) # emitted as"
| "emitted (SetTimeout_OnModelsUpdate ms # as) = emitted as"

section \<open>Example data\<close>

text \<open>
  An extractor that copies the listed top-level keys of the model, and a raw model record
  with a derived and an explicit \<open>temperature\<close>.
\<close>

definition pick :: "string list \<Rightarrow> json \<Rightarrow> obj" where
  "pick ks model = own_enumerable model |` set ks"

definition example_model :: json where
  "example_model =
     JObj [''id'' \<mapsto> JStr ''llama3'', ''temperature'' \<mapsto> JNum (7 / 10),
           ''ctx_len'' \<mapsto> JNum 4096,
           ''parameters'' \<mapsto> JObj [''temperature'' \<mapsto> JNum (1 / 2)]]"

definition example_normalized :: json where
  "example_normalized =
     JObj [''id'' \<mapsto> JStr ''llama3'', ''temperature'' \<mapsto> JNum (7 / 10),
           ''ctx_len'' \<mapsto> JNum 4096,
           ''parameters'' \<mapsto> JObj [''temperature'' \<mapsto> JNum (1 / 2)],
           ''settings'' \<mapsto> JObj [''ctx_len'' \<mapsto> JNum 4096],
           ''metadata'' \<mapsto> JObj [''tags'' \<mapsto> JArr [] Map.empty, ''size'' \<mapsto> JNum 0]]"

definition example_heap :: heap where
  "example_heap = (\<lambda>a. JNull)(0 := example_model)"

text \<open>
  A raw model record with explicit \<open>parameters\<close> and \<open>settings\<close>, and a frame item with
  whole byte counters.
\<close>

definition example_record :: obj where
  "example_record =
     [''id'' \<mapsto> JStr ''llama3'', ''temperature'' \<mapsto> JNum (7 / 10),
      ''top_p'' \<mapsto> JNum (9 / 10), ''ctx_len'' \<mapsto> JNum 4096,
      ''parameters'' \<mapsto> JObj [''temperature'' \<mapsto> JNum (1 / 2)],
      ''settings'' \<mapsto> JObj [''ngl'' \<mapsto> JNum 33]]"

definition item_of_nats :: "nat \<times> nat \<Rightarrow> item" where
  "item_of_nats c = \<lparr>downloadedBytes = Num (of_nat (fst c)), bytes = Num (of_nat (snd c))\<rparr>"

section \<open>Number arithmetic\<close>

lemma floor_rat_numeral: "\<lfloor>numeral a / numeral b :: rat\<rfloor> = numeral a div numeral b"
  by (metis floor_divide_of_int_eq of_int_numeral)

lemma ceiling_rat_numeral:
  "\<lceil>numeral a / numeral b :: rat\<rceil> = - (- numeral a div numeral b)"
  using ceiling_divide_eq_div [of "numeral a" "numeral b", where ?'a = rat] by simp

lemmas double_eval = dadd_def ddiv_def dgt_def fin_def is_neg_def dzero_def dinf_def
  round_double_def floor_log2_def pow2_def round_half_even_def Let_def compute_bitlen
  floor_rat_numeral ceiling_rat_numeral

text \<open>
  Rounding at work: a third is not a value of the format, and neither is \<open>2^53 + 1\<close>.
\<close>

lemma ddiv_one_third: "ddiv (Num 1) (Num 3) = Num (6004799503160661 / 2 ^ 54)"
  by (simp add: double_eval)

lemma dadd_past_2_53: "dadd (Num (2 ^ 53)) (Num 1) = Num (2 ^ 53)"
  by (simp add: double_eval)

lemma round_half_even_of_int: "round_half_even (of_int k) = k"
  by (simp add: round_half_even_def)

lemma round_double_exact:
  assumes u: "u = pow2 (max (floor_log2 \<bar>q\<bar>) (- 1022) - 52)"
    and k: "\<bar>q\<bar> / u = of_int k" and u0: "u \<noteq> 0" and q0: "0 < q" and small: "q < pow2 1024"
  shows "round_double q = Num q"
proof -
  have "of_int (round_half_even (\<bar>q\<bar> / u)) * u = \<bar>q\<bar>"
    unfolding k round_half_even_of_int using k u0 by (simp add: field_simps)
  with q0 small show ?thesis
    unfolding round_double_def Let_def u [symmetric] by simp
qed

text \<open>Whole numbers up to \<open>2^53\<close> are values of the format, and their sums are exact.\<close>

lemma round_double_of_nat:
  assumes "n \<le> 2 ^ 53"
  shows "round_double (of_nat n) = Num (of_nat n)"
proof (cases "n = 0")
  case True
  then show ?thesis by (simp add: round_double_def)
next
  case False
  define q :: rat where "q = of_nat n"
  define e where "e = bitlen (int n) - 1"
  have npos: "0 < int n" using False by simp
  have q1: "1 \<le> q" using False by (simp add: q_def)
  have fl: "floor_log2 \<bar>q\<bar> = e"
    using q1 by (simp add: floor_log2_def e_def q_def)
  from bitlen_bounds [OF npos] have lo: "2 ^ nat e \<le> int n"
    by (simp_all add: e_def)
  have e0: "0 \<le> e"
    using npos bitlen_eq_zero_iff [of "int n"] bitlen_nonneg [of "int n"] by (simp add: e_def)
  have le53: "(2::int) ^ nat e \<le> 2 ^ 53"
    using lo assms by (metis (mono_tags) of_nat_le_iff of_nat_numeral of_nat_power order_trans)
  have e53: "e \<le> 53"
  proof (rule ccontr)
    assume "\<not> e \<le> 53"
    then have "54 \<le> nat e" by simp
    then have "(2::int) ^ 54 \<le> 2 ^ nat e" by (rule power_increasing) simp
    with le53 show False by simp
  qed
  define u where "u = pow2 (max (floor_log2 \<bar>q\<bar>) (- 1022) - 52)"
  have u_eq: "u = pow2 (e - 52)"
    using e0 by (simp add: u_def fl max_def)
  have upos: "u \<noteq> 0"
    by (simp add: u_eq pow2_def)
  have "\<exists>k. \<bar>q\<bar> / u = of_int k"
  proof (cases "e \<le> 52")
    case True
    then have "u = 1 / 2 ^ nat (52 - e) \<or> u = 1"
      by (auto simp add: u_eq pow2_def)
    then have "\<bar>q\<bar> / u = of_int (int n * 2 ^ nat (52 - e)) \<or> \<bar>q\<bar> / u = of_int (int n)"
      by (auto simp add: q_def)
    then show ?thesis by blast
  next
    case False
    with e53 have e: "e = 53" by simp
    then have "u = 2" by (simp add: u_eq pow2_def)
    moreover from lo e have "int n = 2 ^ 53"
      using assms by (simp add: nat_le_iff)
    ultimately have "\<bar>q\<bar> / u = of_int (2 ^ 52)"
      by (simp add: q_def)
    then show ?thesis by blast
  qed
  then obtain k where k: "\<bar>q\<bar> / u = of_int k" by blast
  have small: "q < pow2 1024"
  proof -
    have "q \<le> 2 ^ 53" using assms unfolding q_def
      by (metis of_nat_le_iff of_nat_numeral of_nat_power)
    also have "(2::rat) ^ 53 < 2 ^ 1024" by (rule power_strict_increasing) simp_all
    finally show ?thesis by (simp add: pow2_def)
  qed
  have "round_double q = Num q"
    using u_def k upos _ small by (rule round_double_exact) (use q1 in simp)
  then show ?thesis by (simp add: q_def)
qed

lemma dadd_of_nat:
  assumes "a + b \<le> 2 ^ 53"
  shows "dadd (Num (of_nat a)) (Num (of_nat b)) = Num (of_nat (a + b))"
proof (cases "a + b = 0")
  case True
  then show ?thesis by (simp add: dadd_def fin_def is_neg_def dzero_def)
next
  case False
  then have "(of_nat a :: rat) + of_nat b \<noteq> 0"
    by (metis of_nat_add of_nat_eq_0_iff)
  then show ?thesis
    using round_double_of_nat [OF assms] by (simp add: dadd_def fin_def)
qed

lemma foldl_dadd_of_nat:
  "a + sum_list ns \<le> 2 ^ 53 \<Longrightarrow>
   foldl dadd (Num (of_nat a)) (map (\<lambda>n. Num (of_nat n)) ns) = Num (of_nat (a + sum_list ns))"
proof (induction ns arbitrary: a)
  case Nil
  then show ?case by simp
next
  case (Cons n ns)
  from Cons.prems have step: "a + n \<le> 2 ^ 53" and rest: "(a + n) + sum_list ns \<le> 2 ^ 53"
    by simp_all
  show ?case
    using Cons.IH [OF rest] by (simp add: dadd_of_nat [OF step] add.assoc)
qed

lemma ddiv_of_nat:
  "ddiv (Num (of_nat a)) (Num (of_nat b)) =
     (if b = 0 then (if a = 0 then NaN else PosInf)
      else if a = 0 then Num 0
      else round_double (of_nat a / of_nat b))"
  by (simp add: ddiv_def fin_def is_neg_def dzero_def dinf_def)

lemma dgt_of_nat_zero: "dgt (Num (of_nat b)) (Num 0) = (0 < b)"
  by (simp add: dgt_def fin_def)

section \<open>Aggregation of the byte counters\<close>

lemma transferred_of_fold:
  "transferred_of xs = foldl dadd (Num 0) (map downloadedBytes xs)"
  by (simp add: transferred_of_def foldl_map)

lemma total_of_fold: "total_of xs = foldl dadd (Num 0) (map bytes xs)"
  by (simp add: total_of_def foldl_map)

lemma transferred_of_nats:
  assumes "sum_list (map fst cs) \<le> 2 ^ 53"
  shows "transferred_of (map item_of_nats cs) = Num (of_nat (sum_list (map fst cs)))"
proof -
  have m: "map downloadedBytes (map item_of_nats cs) = map (\<lambda>n. Num (of_nat n)) (map fst cs)"
    by (simp add: item_of_nats_def)
  have f: "foldl dadd (Num (of_nat 0)) (map (\<lambda>n. Num (of_nat n)) (map fst cs))
      = Num (of_nat (0 + sum_list (map fst cs)))"
    by (rule foldl_dadd_of_nat) (use assms in simp)
  show ?thesis
    unfolding transferred_of_fold m using f by simp
qed

lemma total_of_nats:
  assumes "sum_list (map snd cs) \<le> 2 ^ 53"
  shows "total_of (map item_of_nats cs) = Num (of_nat (sum_list (map snd cs)))"
proof -
  have m: "map bytes (map item_of_nats cs) = map (\<lambda>n. Num (of_nat n)) (map snd cs)"
    by (simp add: item_of_nats_def)
  have f: "foldl dadd (Num (of_nat 0)) (map (\<lambda>n. Num (of_nat n)) (map snd cs))
      = Num (of_nat (0 + sum_list (map snd cs)))"
    by (rule foldl_dadd_of_nat) (use assms in simp)
  show ?thesis
    unfolding total_of_fold m using f by simp
qed

lemma percent_of_zero_total: "fin tot = Some 0 \<Longrightarrow> percent_of t tot = Num 0"
  by (auto simp add: percent_of_def dgt_def fin_def split: double.splits)

text \<open>
  C4. For every frame, the emitted payload has \<open>transferred\<close> the sum of the items'
  \<open>downloadedBytes\<close> and \<open>total\<close> the sum of their \<open>bytes\<close>, added from \<open>0\<close> in list order
  with JavaScript's \<open>+\<close>, and \<open>percent\<close> the quotient \<open>transferred / total\<close> when
  \<open>total > 0\<close> and \<open>0\<close> otherwise. When the counters are whole numbers whose sums do not
  exceed \<open>2^53\<close>, as byte counts are, the two sums are the exact sums and the quotient
  is the number nearest the exact ratio. A total of zero gives \<open>percent = 0\<close>, where the
  quotient itself would be \<open>NaN\<close> or an infinity. The items \<open>[{50,100},{0,100}]\<close> give
  \<open>0.25\<close>, and items of total \<open>0\<close> give \<open>0\<close>.
\<close>

theorem on_message_aggregate:
  "(\<exists>rest. on_message data = Emit (DownloadTypes_at (type data)) (payload_of data) # rest)
   \<and> transferred (size (payload_of data))
       = foldl dadd (Num 0) (map downloadedBytes (items (task data)))
   \<and> total (size (payload_of data)) = foldl dadd (Num 0) (map bytes (items (task data)))
   \<and> percent (payload_of data) =
       (if dgt (total (size (payload_of data))) (Num 0)
        then ddiv (transferred (size (payload_of data))) (total (size (payload_of data)))
        else Num 0)
   \<and> (\<forall>cs. items (task data) = map item_of_nats cs
          \<and> sum_list (map fst cs) \<le> 2 ^ 53 \<and> sum_list (map snd cs) \<le> 2 ^ 53 \<longrightarrow>
        transferred (size (payload_of data)) = Num (of_nat (sum_list (map fst cs)))
        \<and> total (size (payload_of data)) = Num (of_nat (sum_list (map snd cs)))
        \<and> percent (payload_of data) =
            (if sum_list (map snd cs) = 0 \<or> sum_list (map fst cs) = 0 then Num 0
             else round_double (of_nat (sum_list (map fst cs)) / of_nat (sum_list (map snd cs)))))
   \<and> (fin (total (size (payload_of data))) = Some 0 \<longrightarrow> percent (payload_of data) = Num 0)
   \<and> percent (payload_of \<lparr>type = t, task = \<lparr>id = m, items =
         [\<lparr>downloadedBytes = Num 50, bytes = Num 100\<rparr>,
          \<lparr>downloadedBytes = Num 0, bytes = Num 100\<rparr>]\<rparr>\<rparr>) = Num (1 / 4)
   \<and> percent (payload_of \<lparr>type = t, task = \<lparr>id = m, items =
         [\<lparr>downloadedBytes = Num 7, bytes = Num 0\<rparr>,
          \<lparr>downloadedBytes = Num 3, bytes = Num 0\<rparr>]\<rparr>\<rparr>) = Num 0
   \<and> ddiv (Num 10) (Num 0) = PosInf
   \<and> ddiv (Num 0) (Num 0) = NaN"
proof (intro conjI allI impI)
  show "\<exists>rest. on_message data = Emit (DownloadTypes_at (type data)) (payload_of data) # rest"
    by (simp add: on_message_def)
  show "transferred (size (payload_of data))
       = foldl dadd (Num 0) (map downloadedBytes (items (task data)))"
    by (simp add: payload_of_def Let_def transferred_of_fold)
  show "total (size (payload_of data)) = foldl dadd (Num 0) (map bytes (items (task data)))"
    by (simp add: payload_of_def Let_def total_of_fold)
  show "percent (payload_of data) =
       (if dgt (total (size (payload_of data))) (Num 0)
        then ddiv (transferred (size (payload_of data))) (total (size (payload_of data)))
        else Num 0)"
    by (simp add: payload_of_def Let_def percent_of_def)
  show "percent (payload_of data) = Num 0" if "fin (total (size (payload_of data))) = Some 0"
    using that by (simp add: payload_of_def Let_def percent_of_zero_total)
  show "percent (payload_of \<lparr>type = t, task = \<lparr>id = m, items =
         [\<lparr>downloadedBytes = Num 50, bytes = Num 100\<rparr>,
          \<lparr>downloadedBytes = Num 0, bytes = Num 100\<rparr>]\<rparr>\<rparr>) = Num (1 / 4)"
    by (simp add: payload_of_def percent_of_def transferred_of_def total_of_def double_eval)
  show "percent (payload_of \<lparr>type = t, task = \<lparr>id = m, items =
         [\<lparr>downloadedBytes = Num 7, bytes = Num 0\<rparr>,
          \<lparr>downloadedBytes = Num 3, bytes = Num 0\<rparr>]\<rparr>\<rparr>) = Num 0"
    by (simp add: payload_of_def percent_of_def transferred_of_def total_of_def double_eval)
  show "ddiv (Num 10) (Num 0) = PosInf" "ddiv (Num 0) (Num 0) = NaN"
    by (simp_all add: double_eval)
next
  fix cs
  assume h: "items (task data) = map item_of_nats cs
          \<and> sum_list (map fst cs) \<le> 2 ^ 53 \<and> sum_list (map snd cs) \<le> 2 ^ 53"
  then have t: "transferred_of (items (task data)) = Num (of_nat (sum_list (map fst cs)))"
    and tot: "total_of (items (task data)) = Num (of_nat (sum_list (map snd cs)))"
    by (simp_all add: transferred_of_nats total_of_nats)
  show "transferred (size (payload_of data)) = Num (of_nat (sum_list (map fst cs)))"
    by (simp add: payload_of_def Let_def t)
  show "total (size (payload_of data)) = Num (of_nat (sum_list (map snd cs)))"
    by (simp add: payload_of_def Let_def tot)
  show "percent (payload_of data) =
            (if sum_list (map snd cs) = 0 \<or> sum_list (map fst cs) = 0 then Num 0
             else round_double (of_nat (sum_list (map fst cs)) / of_nat (sum_list (map snd cs))))"
    unfolding payload_of_def Let_def t tot percent_of_def dgt_of_nat_zero ddiv_of_nat
    by simp
qed

theorem on_message_aggregate_witness:
  "items (task \<lparr>type = ''DownloadUpdated'', task = \<lparr>id = ''llama3'',
       items = map item_of_nats [(50, 100), (0, 100)]\<rparr>\<rparr>) = map item_of_nats [(50, 100), (0, 100)]
   \<and> sum_list (map fst [(50 :: nat, 100 :: nat), (0, 100)]) \<le> 2 ^ 53
   \<and> sum_list (map snd [(50 :: nat, 100 :: nat), (0, 100)]) \<le> 2 ^ 53
   \<and> transferred (size (payload_of \<lparr>type = ''DownloadUpdated'', task = \<lparr>id = ''llama3'',
       items = map item_of_nats [(50, 100), (0, 100)]\<rparr>\<rparr>)) = Num 50
   \<and> total (size (payload_of \<lparr>type = ''DownloadUpdated'', task = \<lparr>id = ''llama3'',
       items = map item_of_nats [(50, 100), (0, 100)]\<rparr>\<rparr>)) = Num 200
   \<and> percent (payload_of \<lparr>type = ''DownloadUpdated'', task = \<lparr>id = ''llama3'',
       items = map item_of_nats [(50, 100), (0, 100)]\<rparr>\<rparr>) = Num (1 / 4)
   \<and> fin (total (size (payload_of \<lparr>type = ''DownloadUpdated'', task = \<lparr>id = ''llama3'',
       items = map item_of_nats [(7, 0), (3, 0)]\<rparr>\<rparr>))) = Some 0
   \<and> percent (payload_of \<lparr>type = ''DownloadUpdated'', task = \<lparr>id = ''llama3'',
       items = map item_of_nats [(7, 0), (3, 0)]\<rparr>\<rparr>) = Num 0"
proof -
  let ?d = "\<lparr>type = ''DownloadUpdated'', task = \<lparr>id = ''llama3'',
       items = map item_of_nats [(50, 100), (0, 100)]\<rparr>\<rparr>"
  let ?z = "\<lparr>type = ''DownloadUpdated'', task = \<lparr>id = ''llama3'',
       items = map item_of_nats [(7, 0), (3, 0)]\<rparr>\<rparr>"
  have s1: "sum_list (map fst [(50 :: nat, 100 :: nat), (0, 100)]) \<le> 2 ^ 53"
    and s2: "sum_list (map snd [(50 :: nat, 100 :: nat), (0, 100)]) \<le> 2 ^ 53"
    by simp_all
  have i: "items (task ?d) = map item_of_nats [(50, 100), (0, 100)]"
    by simp
  from on_message_aggregate [of ?d] i s1 s2
  have "transferred (size (payload_of ?d))
          = Num (of_nat (sum_list (map fst [(50 :: nat, 100 :: nat), (0, 100)])))
      \<and> total (size (payload_of ?d))
          = Num (of_nat (sum_list (map snd [(50 :: nat, 100 :: nat), (0, 100)])))
      \<and> percent (payload_of ?d) =
            (if sum_list (map snd [(50 :: nat, 100 :: nat), (0, 100)]) = 0
                \<or> sum_list (map fst [(50 :: nat, 100 :: nat), (0, 100)]) = 0 then Num 0
             else round_double (of_nat (sum_list (map fst [(50 :: nat, 100 :: nat), (0, 100)]))
                    / of_nat (sum_list (map snd [(50 :: nat, 100 :: nat), (0, 100)]))))"
    by blast
  then have d: "transferred (size (payload_of ?d)) = Num 50"
    "total (size (payload_of ?d)) = Num 200" "percent (payload_of ?d) = Num (1 / 4)"
    by (simp_all add: double_eval)
  have z0: "fin (total (size (payload_of ?z))) = Some 0"
    by (simp add: payload_of_def total_of_def item_of_nats_def double_eval)
  with on_message_aggregate [of ?z] have z: "percent (payload_of ?z) = Num 0"
    by blast
  from i s1 s2 d z0 z show ?thesis
    by (intro conjI)
qed

text \<open>
  C10. On a frame whose \<open>task.items\<close> is the empty array the listener runs through: both
  reduces return their initial accumulator \<open>0\<close>, the guard \<open>total > 0\<close> is false, and the one
  event emitted carries \<open>percent = 0\<close> and \<open>size = {transferred: 0, total: 0}\<close>. The
  quotient of the two sums, which the guard keeps from being taken, is \<open>NaN\<close>.
\<close>

theorem on_message_empty_items:
  assumes "items (task data) = []"
  shows "transferred_of (items (task data)) = Num 0
    \<and> total_of (items (task data)) = Num 0
    \<and> on_message data =
          Emit (DownloadTypes_at (type data))
            \<lparr>modelId = id (task data), percent = Num 0,
               size = \<lparr>transferred = Num 0, total = Num 0\<rparr>\<rparr>
          # (if type data = ''onFileDownloadSuccess'' then [SetTimeout_OnModelsUpdate 500] else [])
    \<and> ddiv (transferred_of (items (task data))) (total_of (items (task data))) = NaN"
proof -
  have g: "dgt (Num 0) (Num 0) = False" and q: "ddiv (Num 0) (Num 0) = NaN"
    by (simp_all add: double_eval)
  from assms g q show ?thesis
    by (simp add: on_message_def payload_of_def percent_of_def transferred_of_def
        total_of_def DownloadTypes_DownloadSuccess_def Let_def)
qed

theorem on_message_empty_items_witness:
  "items (task \<lparr>type = ''DownloadStarted'', task = \<lparr>id = ''llama3'', items = []\<rparr>\<rparr>) = []
   \<and> on_message \<lparr>type = ''DownloadStarted'', task = \<lparr>id = ''llama3'', items = []\<rparr>\<rparr> =
       [Emit (Some ''onFileDownloadStarted'')
         \<lparr>modelId = ''llama3'', percent = Num 0, size = \<lparr>transferred = Num 0, total = Num 0\<rparr>\<rparr>]"
  using on_message_empty_items
    [of "\<lparr>type = ''DownloadStarted'', task = \<lparr>id = ''llama3'', items = []\<rparr>\<rparr>"]
  by (simp add: DownloadTypes_at_def DownloadTypes_def)

section \<open>Event names\<close>

lemma DownloadTypes_at_simps:
  "DownloadTypes_at ''DownloadUpdated'' = Some ''onFileDownloadUpdate''"
  "DownloadTypes_at ''DownloadError'' = Some ''onFileDownloadError''"
  "DownloadTypes_at ''DownloadSuccess'' = Some ''onFileDownloadSuccess''"
  "DownloadTypes_at ''DownloadStopped'' = Some ''onFileDownloadStopped''"
  "DownloadTypes_at ''DownloadStarted'' = Some ''onFileDownloadStarted''"
  "DownloadTypes_at ''onFileDownloadUpdate'' = None"
  "DownloadTypes_at ''onFileDownloadSuccess'' = None"
  by (simp_all add: DownloadTypes_at_def DownloadTypes_def)

lemma DownloadTypes_at_Some_iff:
  "(DownloadTypes_at k = Some ''onFileDownloadSuccess'') = (k = ''DownloadSuccess'')"
  "(Some ''onFileDownloadSuccess'' = DownloadTypes_at k) = (k = ''DownloadSuccess'')"
  by (simp_all add: DownloadTypes_at_def DownloadTypes_def)

text \<open>
  C3, as the code has it. A frame whose \<open>type\<close> is the name of a member of \<open>DownloadTypes\<close>
  (\<open>DownloadUpdated\<close>, \<open>DownloadError\<close>, \<open>DownloadSuccess\<close>, \<open>DownloadStopped\<close>,
  \<open>DownloadStarted\<close>) makes the listener emit exactly one event, named by that member's
  value (\<open>onFileDownloadUpdate\<close>, ...), with the payload
  \<open>{modelId = task.id, percent, size: {transferred, total}}\<close>.
\<close>

theorem on_message_rename:
  assumes "(type data, name) \<in>
     {(''DownloadUpdated'', ''onFileDownloadUpdate''),
      (''DownloadError'', ''onFileDownloadError''),
      (''DownloadSuccess'', ''onFileDownloadSuccess''),
      (''DownloadStopped'', ''onFileDownloadStopped''),
      (''DownloadStarted'', ''onFileDownloadStarted'')}"
  shows "emitted (on_message data) =
     [(Some name,
       \<lparr>modelId = id (task data),
          percent = percent_of (transferred_of (items (task data))) (total_of (items (task data))),
          size = \<lparr>transferred = transferred_of (items (task data)),
                  total = total_of (items (task data))\<rparr>\<rparr>)]"
proof -
  have "DownloadTypes_at (type data) = Some name"
    using assms by (elim insertE emptyE) (simp_all add: DownloadTypes_at_simps)
  then show ?thesis
    by (simp add: on_message_def payload_of_def Let_def)
qed

theorem on_message_rename_witness:
  "emitted (on_message \<lparr>type = ''DownloadUpdated'',
       task = \<lparr>id = ''llama3'', items = [\<lparr>downloadedBytes = Num 50, bytes = Num 200\<rparr>]\<rparr>\<rparr>) =
     [(Some ''onFileDownloadUpdate'',
       \<lparr>modelId = ''llama3'', percent = Num (1 / 4),
          size = \<lparr>transferred = Num 50, total = Num 200\<rparr>\<rparr>)]"
  using on_message_rename
    [of "\<lparr>type = ''DownloadUpdated'',
       task = \<lparr>id = ''llama3'', items = [\<lparr>downloadedBytes = Num 50, bytes = Num 200\<rparr>]\<rparr>\<rparr>"
      "''onFileDownloadUpdate''"]
  by (simp add: percent_of_def transferred_of_def total_of_def double_eval)

text \<open>
  C3, as the spec words it, fails: a frame whose \<open>type\<close> is the event name
  \<open>onFileDownloadUpdate\<close> itself is looked up as a member name, which the enum does not
  have, and the event is emitted under no download event name.
\<close>

theorem on_message_rename_counterexample:
  "emitted (on_message \<lparr>type = ''onFileDownloadUpdate'',
       task = \<lparr>id = ''llama3'', items = [\<lparr>downloadedBytes = Num 50, bytes = Num 200\<rparr>]\<rparr>\<rparr>) =
     [(None, \<lparr>modelId = ''llama3'', percent = Num (1 / 4),
          size = \<lparr>transferred = Num 50, total = Num 200\<rparr>\<rparr>)]
   \<and> emitted (on_message \<lparr>type = ''onFileDownloadUpdate'',
       task = \<lparr>id = ''llama3'', items = [\<lparr>downloadedBytes = Num 50, bytes = Num 200\<rparr>]\<rparr>\<rparr>) \<noteq>
     [(Some ''onFileDownloadUpdate'',
       \<lparr>modelId = ''llama3'', percent = Num (1 / 4),
          size = \<lparr>transferred = Num 50, total = Num 200\<rparr>\<rparr>)]"
  by (simp add: on_message_def payload_of_def DownloadTypes_at_simps Let_def
      percent_of_def transferred_of_def total_of_def DownloadTypes_DownloadSuccess_def
      double_eval)

section \<open>The deferred models-list event\<close>

text \<open>
  C5. The timer is set when the frame's \<open>type\<close> equals the member's value
  \<open>onFileDownloadSuccess\<close> (line 205), while the event name is found by reading \<open>type\<close> as
  a member name (line 196). The frame of type \<open>DownloadSuccess\<close>, the one for which
  \<open>onFileDownloadSuccess\<close> is emitted, sets no timer; the frame of type
  \<open>onFileDownloadSuccess\<close> sets the timer of 500 ms after an event under no download
  event name. So no frame has the success event followed by the models-list event.
\<close>

theorem on_message_DownloadSuccess_frames:
  "on_message \<lparr>type = ''DownloadSuccess'', task = tk\<rparr> =
     [Emit (Some ''onFileDownloadSuccess'') (payload_of \<lparr>type = ''DownloadSuccess'', task = tk\<rparr>)]
   \<and> on_message \<lparr>type = ''onFileDownloadSuccess'', task = tk\<rparr> =
     [Emit None (payload_of \<lparr>type = ''onFileDownloadSuccess'', task = tk\<rparr>),
      SetTimeout_OnModelsUpdate 500]
   \<and> (SetTimeout_OnModelsUpdate 500 \<in> set (on_message data))
       = (type data = ''onFileDownloadSuccess'')
   \<and> ((\<exists>p. Emit (Some ''onFileDownloadSuccess'') p \<in> set (on_message data))
       = (type data = ''DownloadSuccess''))"
  by (simp add: on_message_def DownloadTypes_at_simps DownloadTypes_at_Some_iff
      DownloadTypes_DownloadSuccess_def)

section \<open>The normalizer on objects\<close>

lemma transformModel_JObj:
  "transformModel eip elp (JObj m) =
     Inr (JObj (m(''parameters'' \<mapsto> JObj (eip (JObj m) ++ spread (m ''parameters'')),
                 ''settings'' \<mapsto> JObj (elp (JObj (m(''parameters'' \<mapsto>
                      JObj (eip (JObj m) ++ spread (m ''parameters''))))) ++ spread (m ''settings'')),
                 ''metadata'' \<mapsto> coalesce_value (m ''metadata'')
                      (default_metadata (m ''size'') (m ''metadata'')))))"
  by (simp add: transformModel_def bind_thrown_def js_get_def js_set_def own_enumerable_def)

lemma map_add_upd_other:
  "k' \<noteq> k \<Longrightarrow> (f ++ g(k \<mapsto> x)) k' = (f ++ g) k'"
  by (simp add: map_add_def)

lemma transformModel_JArr:
  "transformModel eip elp (JArr xs ps) =
     Inr (JArr xs (ps(''parameters'' \<mapsto>
                      JObj (eip (JArr xs ps) ++ spread ((index_props xs ++ ps) ''parameters'')),
                 ''settings'' \<mapsto> JObj (elp (JArr xs (ps(''parameters'' \<mapsto>
                      JObj (eip (JArr xs ps) ++ spread ((index_props xs ++ ps) ''parameters'')))))
                      ++ spread ((index_props xs ++ ps) ''settings'')),
                 ''metadata'' \<mapsto> coalesce_value ((index_props xs ++ ps) ''metadata'')
                      (default_metadata ((index_props xs ++ ps) ''size'')
                         ((index_props xs ++ ps) ''metadata'')))))"
  by (simp add: transformModel_def bind_thrown_def js_get_def js_set_def own_enumerable_def
      map_add_upd_other del: map_add_upd)

lemma transformModel_primitive:
  "transformModel eip elp JNull = Inl TypeError"
  "transformModel eip elp (JBool b) = Inl TypeError"
  "transformModel eip elp (JNum n) = Inl TypeError"
  "transformModel eip elp (JStr s) = Inl TypeError"
  by (simp_all add: transformModel_def bind_thrown_def js_get_def js_set_def)

lemma coalesce_value_idem:
  "d \<noteq> JNull \<Longrightarrow> coalesce_value (Some (coalesce_value a d)) d' = coalesce_value a d"
  by (auto simp add: coalesce_value_def split: option.splits json.splits)

lemma default_metadata_not_null: "default_metadata sz md \<noteq> JNull"
  by (simp add: default_metadata_def)

lemma default_metadata_absent:
  "default_metadata sz None =
     JObj [''tags'' \<mapsto> JArr [] Map.empty,
           ''size'' \<mapsto> (case sz of None \<Rightarrow> JNum 0 | Some JNull \<Rightarrow> JNum 0 | Some v \<Rightarrow> v)]"
  by (simp add: default_metadata_def optional_get_def coalesce_def nullish_def
      coalesce_value_def split: option.splits json.splits)

lemma spread_JObj: "spread (Some (JObj m)) = m"
  by (simp add: spread_def own_enumerable_def)

lemma map_add_absorb: "a ++ (a ++ b) = a ++ (b :: 'k \<Rightarrow> 'v option)"
  by (rule ext) (simp add: map_add_def split: option.splits)

text \<open>
  C6. For every raw model record (a JSON object), the normalizer returns the record with
  \<open>parameters\<close> and \<open>settings\<close> present. When the record has a \<open>parameters\<close> object, the
  result's \<open>parameters\<close> holds, under every key, the record's own value where it has one
  and the derived inference parameter otherwise; when the record has no \<open>parameters\<close>,
  it is the derived object. \<open>settings\<close> likewise, from the load parameters (derived
  once \<open>parameters\<close> is written) and the record's \<open>settings\<close>.
\<close>

theorem transformModel_defaults_merged:
  "\<exists>m' P S.
     transformModel eip elp (JObj m) = Inr (JObj m')
     \<and> m' ''parameters'' = Some (JObj P)
     \<and> m' ''settings'' = Some (JObj S)
     \<and> (\<forall>p. m ''parameters'' = Some (JObj p) \<longrightarrow>
           P = (\<lambda>k. case p k of Some v \<Rightarrow> Some v | None \<Rightarrow> eip (JObj m) k))
     \<and> (m ''parameters'' = None \<longrightarrow> P = eip (JObj m))
     \<and> (\<forall>s. m ''settings'' = Some (JObj s) \<longrightarrow>
           S = (\<lambda>k. case s k of
                      Some v \<Rightarrow> Some v
                    | None \<Rightarrow> elp (JObj (m(''parameters'' \<mapsto> JObj P))) k))
     \<and> (m ''settings'' = None \<longrightarrow> S = elp (JObj (m(''parameters'' \<mapsto> JObj P))))"
proof -
  define P where "P = eip (JObj m) ++ spread (m ''parameters'')"
  define S where "S = elp (JObj (m(''parameters'' \<mapsto> JObj P))) ++ spread (m ''settings'')"
  define m' where "m' = m(''parameters'' \<mapsto> JObj P, ''settings'' \<mapsto> JObj S,
      ''metadata'' \<mapsto> coalesce_value (m ''metadata'')
         (default_metadata (m ''size'') (m ''metadata'')))"
  have t: "transformModel eip elp (JObj m) = Inr (JObj m')"
    unfolding transformModel_JObj m'_def S_def P_def ..
  have mp: "m' ''parameters'' = Some (JObj P)" and ms: "m' ''settings'' = Some (JObj S)"
    by (simp_all add: m'_def)
  have p1: "P = (\<lambda>k. case p k of Some v \<Rightarrow> Some v | None \<Rightarrow> eip (JObj m) k)"
    if "m ''parameters'' = Some (JObj p)" for p
    by (rule ext) (simp add: P_def that spread_JObj map_add_def)
  have p2: "P = eip (JObj m)" if "m ''parameters'' = None"
    by (simp add: P_def that spread_def)
  have s1: "S = (\<lambda>k. case s k of
                      Some v \<Rightarrow> Some v
                    | None \<Rightarrow> elp (JObj (m(''parameters'' \<mapsto> JObj P))) k)"
    if "m ''settings'' = Some (JObj s)" for s
    by (rule ext) (simp add: S_def that spread_JObj map_add_def)
  have s2: "S = elp (JObj (m(''parameters'' \<mapsto> JObj P)))" if "m ''settings'' = None"
    by (simp add: S_def that spread_def)
  have "transformModel eip elp (JObj m) = Inr (JObj m')
     \<and> m' ''parameters'' = Some (JObj P)
     \<and> m' ''settings'' = Some (JObj S)
     \<and> (\<forall>p. m ''parameters'' = Some (JObj p) \<longrightarrow>
           P = (\<lambda>k. case p k of Some v \<Rightarrow> Some v | None \<Rightarrow> eip (JObj m) k))
     \<and> (m ''parameters'' = None \<longrightarrow> P = eip (JObj m))
     \<and> (\<forall>s. m ''settings'' = Some (JObj s) \<longrightarrow>
           S = (\<lambda>k. case s k of
                      Some v \<Rightarrow> Some v
                    | None \<Rightarrow> elp (JObj (m(''parameters'' \<mapsto> JObj P))) k))
     \<and> (m ''settings'' = None \<longrightarrow> S = elp (JObj (m(''parameters'' \<mapsto> JObj P))))"
    by ((intro conjI allI impI t mp ms p1 p2 s1 s2); assumption)
  then show ?thesis
    by (rule_tac x = m' in exI, rule_tac x = P in exI, rule_tac x = S in exI)
qed

theorem transformModel_defaults_merged_witness:
  "\<exists>m' P S.
     transformModel (pick [''temperature'', ''top_p'']) (pick [''ctx_len'', ''ngl''])
       (JObj example_record) = Inr (JObj m')
     \<and> m' ''parameters'' = Some (JObj P)
     \<and> m' ''settings'' = Some (JObj S)
     \<and> example_record ''parameters'' = Some (JObj [''temperature'' \<mapsto> JNum (1 / 2)])
     \<and> example_record ''settings'' = Some (JObj [''ngl'' \<mapsto> JNum 33])
     \<and> P ''temperature'' = Some (JNum (1 / 2))
     \<and> P ''top_p'' = Some (JNum (9 / 10))
     \<and> P ''ctx_len'' = None
     \<and> S ''ngl'' = Some (JNum 33)
     \<and> S ''ctx_len'' = Some (JNum 4096)
     \<and> S ''temperature'' = None"
proof -
  let ?eip = "pick [''temperature'', ''top_p'']"
  let ?elp = "pick [''ctx_len'', ''ngl'']"
  from transformModel_defaults_merged [of ?eip ?elp example_record]
  obtain m' P S where t: "transformModel ?eip ?elp (JObj example_record) = Inr (JObj m')"
    and mp: "m' ''parameters'' = Some (JObj P)" and ms: "m' ''settings'' = Some (JObj S)"
    and p: "\<forall>p. example_record ''parameters'' = Some (JObj p) \<longrightarrow>
           P = (\<lambda>k. case p k of Some v \<Rightarrow> Some v | None \<Rightarrow> ?eip (JObj example_record) k)"
    and s: "\<forall>s. example_record ''settings'' = Some (JObj s) \<longrightarrow>
           S = (\<lambda>k. case s k of
                      Some v \<Rightarrow> Some v
                    | None \<Rightarrow> ?elp (JObj (example_record(''parameters'' \<mapsto> JObj P))) k)"
    by blast
  have rp: "example_record ''parameters'' = Some (JObj [''temperature'' \<mapsto> JNum (1 / 2)])"
    and rs: "example_record ''settings'' = Some (JObj [''ngl'' \<mapsto> JNum 33])"
    by (simp_all add: example_record_def)
  from p rp have P: "P = (\<lambda>k. case [''temperature'' \<mapsto> JNum (1 / 2)] k of
        Some v \<Rightarrow> Some v | None \<Rightarrow> ?eip (JObj example_record) k)"
    by blast
  from s rs have S: "S = (\<lambda>k. case [''ngl'' \<mapsto> JNum 33] k of
        Some v \<Rightarrow> Some v
      | None \<Rightarrow> ?elp (JObj (example_record(''parameters'' \<mapsto> JObj P))) k)"
    by blast
  have P1: "P ''temperature'' = Some (JNum (1 / 2))" and P2: "P ''top_p'' = Some (JNum (9 / 10))"
    and P3: "P ''ctx_len'' = None"
    unfolding P by (simp_all add: pick_def own_enumerable_def example_record_def)
  have S1: "S ''ngl'' = Some (JNum 33)" and S2: "S ''ctx_len'' = Some (JNum 4096)"
    and S3: "S ''temperature'' = None"
    unfolding S by (simp_all add: pick_def own_enumerable_def example_record_def)
  from t mp ms rp rs P1 P2 P3 S1 S2 S3
  have "transformModel ?eip ?elp (JObj example_record) = Inr (JObj m')
     \<and> m' ''parameters'' = Some (JObj P)
     \<and> m' ''settings'' = Some (JObj S)
     \<and> example_record ''parameters'' = Some (JObj [''temperature'' \<mapsto> JNum (1 / 2)])
     \<and> example_record ''settings'' = Some (JObj [''ngl'' \<mapsto> JNum 33])
     \<and> P ''temperature'' = Some (JNum (1 / 2))
     \<and> P ''top_p'' = Some (JNum (9 / 10))
     \<and> P ''ctx_len'' = None
     \<and> S ''ngl'' = Some (JNum 33)
     \<and> S ''ctx_len'' = Some (JNum 4096)
     \<and> S ''temperature'' = None"
    by (intro conjI)
  then show ?thesis
    by (rule_tac x = m' in exI, rule_tac x = P in exI, rule_tac x = S in exI)
qed

text \<open>
  C7. A raw model record with no \<open>metadata\<close> field comes out with
  \<open>metadata = {tags: [], size}\<close>, where \<open>size\<close> is the record's \<open>size\<close> when it has one
  (other than \<open>null\<close>) and \<open>0\<close> otherwise; a record that has a metadata value (other than
  \<open>null\<close>) keeps exactly that value.
\<close>

theorem transformModel_metadata:
  "(m ''metadata'' = None \<longrightarrow>
      (\<exists>m'. transformModel eip elp (JObj m) = Inr (JObj m')
         \<and> m' ''metadata'' =
             Some (JObj [''tags'' \<mapsto> JArr [] Map.empty,
                         ''size'' \<mapsto> (case m ''size'' of
                                          None \<Rightarrow> JNum 0
                                        | Some JNull \<Rightarrow> JNum 0
                                        | Some v \<Rightarrow> v)])))
   \<and> (\<forall>md. m ''metadata'' = Some md \<and> md \<noteq> JNull \<longrightarrow>
      (\<exists>m'. transformModel eip elp (JObj m) = Inr (JObj m')
         \<and> m' ''metadata'' = Some md))"
proof (intro conjI impI allI)
  assume "m ''metadata'' = None"
  then show "\<exists>m'. transformModel eip elp (JObj m) = Inr (JObj m')
         \<and> m' ''metadata'' =
             Some (JObj [''tags'' \<mapsto> JArr [] Map.empty,
                         ''size'' \<mapsto> (case m ''size'' of
                                          None \<Rightarrow> JNum 0
                                        | Some JNull \<Rightarrow> JNum 0
                                        | Some v \<Rightarrow> v)])"
    unfolding transformModel_JObj
    by (simp add: default_metadata_absent coalesce_value_def)
next
  fix md
  assume "m ''metadata'' = Some md \<and> md \<noteq> JNull"
  then show "\<exists>m'. transformModel eip elp (JObj m) = Inr (JObj m') \<and> m' ''metadata'' = Some md"
    unfolding transformModel_JObj
    by (cases md) (simp_all add: coalesce_value_def)
qed

theorem transformModel_metadata_witness:
  "(\<exists>m'. transformModel (pick [''temperature'']) (pick [''ctx_len''])
            (JObj [''id'' \<mapsto> JStr ''llama3'', ''size'' \<mapsto> JNum 4096]) = Inr (JObj m')
         \<and> m' ''metadata'' =
             Some (JObj [''tags'' \<mapsto> JArr [] Map.empty, ''size'' \<mapsto> JNum 4096]))
   \<and> (\<exists>m'. transformModel (pick [''temperature'']) (pick [''ctx_len''])
            (JObj [''id'' \<mapsto> JStr ''llama3'', ''size'' \<mapsto> JNum 4096,
                   ''metadata'' \<mapsto> JObj [''author'' \<mapsto> JStr ''meta'']]) = Inr (JObj m')
         \<and> m' ''metadata'' = Some (JObj [''author'' \<mapsto> JStr ''meta'']))"
  using transformModel_metadata
      [of "[''id'' \<mapsto> JStr ''llama3'', ''size'' \<mapsto> JNum 4096]"
          "pick [''temperature'']" "pick [''ctx_len'']"]
    transformModel_metadata
      [of "[''id'' \<mapsto> JStr ''llama3'', ''size'' \<mapsto> JNum 4096,
            ''metadata'' \<mapsto> JObj [''author'' \<mapsto> JStr ''meta'']]"
          "pick [''temperature'']" "pick [''ctx_len'']"]
  by simp

section \<open>Normalizing twice\<close>

lemma fields_blind_JObj:
  assumes "fields_blind f" "k \<in> {''parameters'', ''settings'', ''metadata''}"
  shows "f (JObj (m(k \<mapsto> x))) = f (JObj m)"
proof -
  have "js_set (JObj m) k x = Inr (JObj (m(k \<mapsto> x)))"
    by (simp add: js_set_def)
  with assms show ?thesis
    unfolding fields_blind_def by blast
qed

lemma fields_blind_JArr:
  assumes "fields_blind f" "k \<in> {''parameters'', ''settings'', ''metadata''}"
  shows "f (JArr xs (ps(k \<mapsto> x))) = f (JArr xs ps)"
proof -
  have "js_set (JArr xs ps) k x = Inr (JArr xs (ps(k \<mapsto> x)))"
    by (simp add: js_set_def)
  with assms show ?thesis
    unfolding fields_blind_def by blast
qed

lemma transformModel_idem_JObj:
  assumes eip: "fields_blind eip" and elp: "fields_blind elp"
    and t: "transformModel eip elp (JObj m) = Inr model1"
  shows "transformModel eip elp model1 = Inr model1"
proof -
  define P where "P = eip (JObj m) ++ spread (m ''parameters'')"
  define m1 where "m1 = m(''parameters'' \<mapsto> JObj P)"
  define S where "S = elp (JObj m1) ++ spread (m ''settings'')"
  define m2 where "m2 = m1(''settings'' \<mapsto> JObj S)"
  define MD where
    "MD = coalesce_value (m ''metadata'') (default_metadata (m ''size'') (m ''metadata''))"
  define m3 where "m3 = m2(''metadata'' \<mapsto> MD)"
  have model1: "model1 = JObj m3"
    using t unfolding transformModel_JObj m3_def m2_def m1_def MD_def S_def P_def by simp
  have e3: "eip (JObj m3) = eip (JObj m)"
    unfolding m3_def m2_def m1_def using eip by (simp add: fields_blind_JObj)
  have l3: "elp (JObj m3) = elp (JObj m1)"
    unfolding m3_def m2_def using elp by (simp add: fields_blind_JObj)
  have p3: "m3 ''parameters'' = Some (JObj P)" and s3: "m3 ''settings'' = Some (JObj S)"
    and md3: "m3 ''metadata'' = Some MD"
    by (simp_all add: m3_def m2_def m1_def)
  have P': "eip (JObj m3) ++ spread (m3 ''parameters'') = P"
    unfolding e3 p3 spread_JObj P_def by (rule map_add_absorb)
  have m3p: "m3(''parameters'' \<mapsto> JObj P) = m3"
    using p3 by (simp add: fun_upd_idem)
  have S': "elp (JObj m3) ++ spread (m3 ''settings'') = S"
    unfolding l3 s3 spread_JObj S_def by (rule map_add_absorb)
  have m3s: "m3(''settings'' \<mapsto> JObj S) = m3"
    using s3 by (simp add: fun_upd_idem)
  have MD': "coalesce_value (m3 ''metadata'') d = MD" for d
    unfolding md3 MD_def by (rule coalesce_value_idem) (rule default_metadata_not_null)
  have m3m: "m3(''metadata'' \<mapsto> MD) = m3"
    using md3 by (simp add: fun_upd_idem)
  show ?thesis
    unfolding model1 transformModel_JObj P' m3p S' m3s MD' m3m ..
qed

lemma transformModel_idem_JArr:
  assumes eip: "fields_blind eip" and elp: "fields_blind elp"
    and t: "transformModel eip elp (JArr xs ps) = Inr model1"
  shows "transformModel eip elp model1 = Inr model1"
proof -
  define g where "g = index_props xs ++ ps"
  define P where "P = eip (JArr xs ps) ++ spread (g ''parameters'')"
  define p1 where "p1 = ps(''parameters'' \<mapsto> JObj P)"
  define S where "S = elp (JArr xs p1) ++ spread (g ''settings'')"
  define p2 where "p2 = p1(''settings'' \<mapsto> JObj S)"
  define MD where
    "MD = coalesce_value (g ''metadata'') (default_metadata (g ''size'') (g ''metadata''))"
  define p3 where "p3 = p2(''metadata'' \<mapsto> MD)"
  define g3 where "g3 = index_props xs ++ p3"
  have model1: "model1 = JArr xs p3"
    using t unfolding transformModel_JArr p3_def p2_def p1_def MD_def S_def P_def g_def by simp
  have e3: "eip (JArr xs p3) = eip (JArr xs ps)"
    unfolding p3_def p2_def p1_def using eip by (simp add: fields_blind_JArr)
  have l3: "elp (JArr xs p3) = elp (JArr xs p1)"
    unfolding p3_def p2_def using elp by (simp add: fields_blind_JArr)
  have q3: "g3 ''parameters'' = Some (JObj P)" and s3: "g3 ''settings'' = Some (JObj S)"
    and md3: "g3 ''metadata'' = Some MD"
    by (simp_all add: g3_def p3_def p2_def p1_def map_add_def)
  have r3: "p3 ''parameters'' = Some (JObj P)" "p3 ''settings'' = Some (JObj S)"
    "p3 ''metadata'' = Some MD"
    by (simp_all add: p3_def p2_def p1_def)
  have P': "eip (JArr xs p3) ++ spread (g3 ''parameters'') = P"
    unfolding e3 q3 spread_JObj P_def by (rule map_add_absorb)
  have m3p: "p3(''parameters'' \<mapsto> JObj P) = p3"
    using r3 by (simp add: fun_upd_idem)
  have S': "elp (JArr xs p3) ++ spread (g3 ''settings'') = S"
    unfolding l3 s3 spread_JObj S_def by (rule map_add_absorb)
  have m3s: "p3(''settings'' \<mapsto> JObj S) = p3"
    using r3 by (simp add: fun_upd_idem)
  have MD': "coalesce_value (g3 ''metadata'') d = MD" for d
    unfolding md3 MD_def by (rule coalesce_value_idem) (rule default_metadata_not_null)
  have m3m: "p3(''metadata'' \<mapsto> MD) = p3"
    using r3 by (simp add: fun_upd_idem)
  show ?thesis
    unfolding model1 transformModel_JArr g3_def [symmetric] P' m3p S' m3s MD' m3m ..
qed

lemma transformModel_idem:
  assumes "fields_blind eip" "fields_blind elp" "transformModel eip elp model = Inr model1"
  shows "transformModel eip elp model1 = Inr model1"
proof (cases model)
  case (JArr xs ps)
  with assms show ?thesis
    by (blast intro: transformModel_idem_JArr)
next
  case (JObj m)
  with assms show ?thesis
    by (blast intro: transformModel_idem_JObj)
qed (use assms(3) in \<open>simp_all add: transformModel_primitive\<close>)

lemma js_set_own_enumerable:
  "js_set model k x = Inr model' \<Longrightarrow> own_enumerable model' = (own_enumerable model)(k \<mapsto> x)"
  by (auto simp add: js_set_def own_enumerable_def split: json.splits)

lemma fields_blind_pick:
  assumes "''parameters'' \<notin> set ks" "''settings'' \<notin> set ks" "''metadata'' \<notin> set ks"
  shows "fields_blind (pick ks)"
  unfolding fields_blind_def pick_def
proof (intro allI impI, elim conjE)
  fix model k x model'
  assume k: "k \<in> {''parameters'', ''settings'', ''metadata''}"
    and s: "js_set model k x = Inr model'"
  from k assms have "k \<notin> set ks" by blast
  then show "own_enumerable model' |` set ks = own_enumerable model |` set ks"
    unfolding js_set_own_enumerable [OF s] by (simp add: restrict_map_def fun_eq_iff)
qed

lemma example_transformModel:
  "transformModel (pick [''temperature'']) (pick [''ctx_len'']) example_model
     = Inr example_normalized"
  unfolding example_model_def example_normalized_def transformModel_JObj
  by (simp add: pick_def own_enumerable_def spread_def default_metadata_def coalesce_value_def
      coalesce_def nullish_def optional_get_def)

lemma example_call:
  "transformModel_call (pick [''temperature'']) (pick [''ctx_len'']) example_heap 0
     = Inr (example_heap(0 := example_normalized), 0)"
  by (simp add: transformModel_call_def example_heap_def example_transformModel)

lemma example_normalized_differs: "example_normalized \<noteq> example_model"
proof
  assume "example_normalized = example_model"
  then have "own_enumerable example_normalized ''settings'' = own_enumerable example_model ''settings''"
    by simp
  then show False
    by (simp add: example_normalized_def example_model_def own_enumerable_def)
qed

text \<open>
  C8, as the code has it. The normalizer reads and writes nothing but the object it
  is given: it overwrites that object's \<open>parameters\<close>, \<open>settings\<close> and \<open>metadata\<close> in place,
  leaves every other object as it was, and returns the reference it was passed.
  Normalizing the result again changes nothing, provided the two extractors do not
  depend on the three fields the normalizer writes.
\<close>

theorem transformModel_call_idempotent:
  assumes "fields_blind eip" and "fields_blind elp"
    and "transformModel_call eip elp h a = Inr (h', r)"
  shows "r = a \<and> (\<forall>b. b \<noteq> a \<longrightarrow> h' b = h b)
    \<and> transformModel eip elp (h a) = Inr (h' a)
    \<and> transformModel_call eip elp h' r = Inr (h', r)"
proof (cases "transformModel eip elp (h a)")
  case (Inl e)
  from assms(3) have False
    unfolding transformModel_call_def Inl by simp
  then show ?thesis ..
next
  case (Inr model1)
  from assms(3) have eq: "(h(a := model1), a) = (h', r)"
    unfolding transformModel_call_def Inr sum.case sum.inject .
  have h': "h' = h(a := model1)"
    using eq by (metis fst_conv)
  have r: "r = a"
    using eq by (metis snd_conv)
  have again: "transformModel eip elp model1 = Inr model1"
    using assms(1,2) Inr by (rule transformModel_idem)
  have c1: "\<forall>b. b \<noteq> a \<longrightarrow> h' b = h b"
    by (simp add: h')
  have c2: "transformModel eip elp (h a) = Inr (h' a)"
    by (simp add: h' Inr)
  have c3: "transformModel_call eip elp h' r = Inr (h', r)"
    by (simp add: transformModel_call_def again h' r)
  from r c1 c2 c3 show ?thesis
    by (intro conjI)
qed

theorem transformModel_call_idempotent_witness:
  "fields_blind (pick [''temperature'']) \<and> fields_blind (pick [''ctx_len''])
   \<and> transformModel_call (pick [''temperature'']) (pick [''ctx_len'']) example_heap 0
       = Inr (example_heap(0 := example_normalized), 0)
   \<and> transformModel_call (pick [''temperature'']) (pick [''ctx_len''])
         (example_heap(0 := example_normalized)) 0
       = Inr (example_heap(0 := example_normalized), 0)"
proof -
  have b1: "fields_blind (pick [''temperature''])" by (rule fields_blind_pick) simp_all
  have b2: "fields_blind (pick [''ctx_len''])" by (rule fields_blind_pick) simp_all
  note th = transformModel_call_idempotent [OF b1 b2 example_call]
  from th have "transformModel_call (pick [''temperature'']) (pick [''ctx_len''])
         (example_heap(0 := example_normalized)) 0
       = Inr (example_heap(0 := example_normalized), 0)"
    by (elim conjE)
  with b1 b2 example_call show ?thesis
    by (intro conjI)
qed

text \<open>
  C8, as the spec words it, fails: the normalizer is not free of side effects. After the
  call the caller's object is no longer the record that was passed in.
\<close>

theorem transformModel_call_counterexample:
  "transformModel_call (pick [''temperature'']) (pick [''ctx_len'']) example_heap 0
     = Inr (example_heap(0 := example_normalized), 0)
   \<and> (example_heap(0 := example_normalized)) 0 \<noteq> example_heap 0"
proof
  show "transformModel_call (pick [''temperature'']) (pick [''ctx_len'']) example_heap 0
     = Inr (example_heap(0 := example_normalized), 0)"
    by (rule example_call)
  show "(example_heap(0 := example_normalized)) 0 \<noteq> example_heap 0"
    using example_normalized_differs by (simp add: example_heap_def)
qed


section \<open>The models list\<close>

lemma list_all2_map_thrown:
  "list_all2 (\<lambda>x y. f x = Inr y) xs ys \<Longrightarrow> map_thrown f xs = Inr ys"
  by (induction rule: list_all2_induct) simp_all

lemma map_thrown_list_all2:
  "map_thrown f xs = Inr ys \<Longrightarrow> list_all2 (\<lambda>x y. f x = Inr y) xs ys"
proof (induction xs arbitrary: ys)
  case Nil
  then show ?case by simp
next
  case (Cons x xs)
  from Cons.prems obtain y zs where fx: "f x = Inr y" and rest: "map_thrown f xs = Inr zs"
    and ys: "ys = y # zs"
    by (auto split: sum.splits)
  from Cons.IH [OF rest] fx ys show ?case by simp
qed

lemma getModels_data:
  "m ''data'' = Some (JArr xs ps) \<Longrightarrow>
   getModels eip elp (Inr (JObj m)) = map_thrown (transformModel eip elp) xs"
  by (simp add: getModels_def typeof_js_def bind_thrown_def js_get_def own_enumerable_def
      array_map_def)

lemma getModels_records:
  assumes "m ''data'' = Some (JArr (map JObj ms) ps)"
  shows "\<exists>ys. getModels eip elp (Inr (JObj m)) = Inr ys
     \<and> list_all2 (\<lambda>r y. transformModel eip elp (JObj r) = Inr y) ms ys"
proof -
  have "\<exists>ys. list_all2 (\<lambda>r y. transformModel eip elp (JObj r) = Inr y) ms ys"
  proof (induction ms)
    case Nil
    then show ?case by simp
  next
    case (Cons r rs)
    then obtain ys where "list_all2 (\<lambda>r y. transformModel eip elp (JObj r) = Inr y) rs ys"
      by blast
    moreover obtain y where "transformModel eip elp (JObj r) = Inr y"
      unfolding transformModel_JObj by blast
    ultimately have "list_all2 (\<lambda>r y. transformModel eip elp (JObj r) = Inr y) (r # rs) (y # ys)"
      by simp
    then show ?case by blast
  qed
  then obtain ys where ys: "list_all2 (\<lambda>r y. transformModel eip elp (JObj r) = Inr y) ms ys"
    by blast
  then have "list_all2 (\<lambda>x y. transformModel eip elp x = Inr y) (map JObj ms) ys"
    by (simp add: list_all2_map1)
  then have "map_thrown (transformModel eip elp) (map JObj ms) = Inr ys"
    by (rule list_all2_map_thrown)
  with assms ys show ?thesis
    by (auto simp add: getModels_data)
qed

text \<open>
  C2. The guard of \<open>getModels\<close> is \<open>typeof e === 'object'\<close>. A response that is a string,
  a number or a boolean gives the empty list. The responses \<open>null\<close> and \<open>[]\<close>, which are
  not objects either, pass the guard, and the read of \<open>e.data\<close> and the call of
  \<open>e.data.map\<close> throw: the promise rejects with a \<open>TypeError\<close>.
\<close>

theorem getModels_typeof_guard:
  "getModels eip elp (Inr JNull) = Inl TypeError
   \<and> getModels eip elp (Inr (JArr [] Map.empty)) = Inl TypeError
   \<and> getModels eip elp (Inr (JStr s)) = Inr []
   \<and> getModels eip elp (Inr (JNum n)) = Inr []
   \<and> getModels eip elp (Inr (JBool b)) = Inr []"
  by (simp add: getModels_def typeof_js_def bind_thrown_def js_get_def own_enumerable_def
      array_map_def index_props_def)

section \<open>Pulling a model\<close>

text \<open>
  C9. When the request fails with an \<open>HTTPError\<close> whose response body is not JSON (a
  plain-text 500, an empty body), \<open>pullModel\<close> rejects with the parser's \<open>SyntaxError\<close>:
  neither a parsed error body nor the transport error. With a JSON body other than
  \<open>null\<close> it rejects with that body, and with no response or a \<open>null\<close> body with the
  transport error; on acceptance it resolves.
\<close>

theorem pullModel_rejections:
  "pullModel (Inl (HTTPError status Unparsable)) = Inl SyntaxError
   \<and> pullModel (Inl (HTTPError status (Parsed (JObj m)))) = Inl (ErrorBody (JObj m))
   \<and> pullModel (Inl (HTTPError status (Parsed JNull)))
       = Inl (Raw (HTTPError status (Parsed JNull)))
   \<and> pullModel (Inl (OtherError msg)) = Inl (Raw (OtherError msg))
   \<and> pullModel (Inr v) = Inr v"
  by (simp add: pullModel_def pullModel_catch_def response_json_def)

end
